theory Spec2Isabelle
  imports Main "HOL-Library.Sublist"
begin

section \<open>Values of parsed JSON documents\<close>

text \<open>
  \<^verbatim>\<open>main.py\<close> reads the configuration and every manifest with \<^verbatim>\<open>JsonComment().load\<close> and then
  works on the parsed document as an untyped Python value. The values a JSON document can
  parse to are modelled by \<open>json\<close>: \<^verbatim>\<open>None\<close>, \<^verbatim>\<open>bool\<close>, \<^verbatim>\<open>int\<close>, \<^verbatim>\<open>str\<close>, \<^verbatim>\<open>list\<close> and \<^verbatim>\<open>dict\<close>. A dict is
  given by its items (a parsed dict has each key once). Strings are lists of 8-bit
  characters, so the model covers ASCII text; JSON numbers with a fraction are not
  represented.
\<close>

datatype json =
    JNull
  | JBool bool
  | JNum int
  | JStr string
  | JList "json list"
  | JDict "(string \<times> json) list"

text \<open>The exceptions the statements of \<^verbatim>\<open>main\<close> can raise on such values.\<close>

datatype py_error = KeyError | IndexError | TypeError | AttributeError

text \<open>Truth value of a Python object, as tested by \<^verbatim>\<open>if not manifest\<close>.\<close>

fun truthy :: "json \<Rightarrow> bool" where
  "truthy JNull = False"
| "truthy (JBool b) = b"
| "truthy (JNum i) = (i \<noteq> 0)"
| "truthy (JStr s) = (s \<noteq> [])"
| "truthy (JList xs) = (xs \<noteq> [])"
| "truthy (JDict kvs) = (kvs \<noteq> [])"

text \<open>
  \<^verbatim>\<open>obj[key]\<close> for a string key: only a dict can be indexed by a string; a missing key raises
  \<^verbatim>\<open>KeyError\<close>, every other type raises \<^verbatim>\<open>TypeError\<close>.
\<close>

fun subscript :: "json \<Rightarrow> string \<Rightarrow> py_error + json" where
  "subscript (JDict kvs) key = (case map_of kvs key of None \<Rightarrow> Inl KeyError | Some v \<Rightarrow> Inr v)"
| "subscript _ key = Inl TypeError"

text \<open>
  \<^verbatim>\<open>obj[0]\<close>: the first element of a list, the first character of a string; \<^verbatim>\<open>IndexError\<close> when
  either is empty; \<^verbatim>\<open>KeyError\<close> on a dict (its keys are strings); \<^verbatim>\<open>TypeError\<close> otherwise.
\<close>

fun subscript0 :: "json \<Rightarrow> py_error + json" where
  "subscript0 (JList []) = Inl IndexError"
| "subscript0 (JList (x # xs)) = Inr x"
| "subscript0 (JStr []) = Inl IndexError"
| "subscript0 (JStr (c # cs)) = Inr (JStr [c])"
| "subscript0 (JDict kvs) = Inl KeyError"
| "subscript0 _ = Inl TypeError"

text \<open>\<^verbatim>\<open>manifest.get(key, default)\<close>; only a dict has the method.\<close>

fun py_get :: "json \<Rightarrow> string \<Rightarrow> json \<Rightarrow> py_error + json" where
  "py_get (JDict kvs) key dflt = (case map_of kvs key of None \<Rightarrow> Inr dflt | Some v \<Rightarrow> Inr v)"
| "py_get _ key dflt = Inl AttributeError"

text \<open>\<^verbatim>\<open>str.lower()\<close> on ASCII text; only a string has the method.\<close>

definition lower_char :: "char \<Rightarrow> char" where
  "lower_char c =
     (if 65 \<le> (of_char c :: nat) \<and> (of_char c :: nat) \<le> 90
      then char_of ((of_char c :: nat) + 32) else c)"

fun py_lower :: "json \<Rightarrow> py_error + string" where
  "py_lower (JStr s) = Inr (map lower_char s)"
| "py_lower _ = Inl AttributeError"

text \<open>\<^verbatim>\<open>s.split(':')\<close>: cuts at every delimiter and always returns at least one segment.\<close>

fun split_on :: "char \<Rightarrow> string \<Rightarrow> string list" where
  "split_on d [] = [[]]"
| "split_on d (c # cs) =
     (if c = d then [] # split_on d cs
      else (case split_on d cs of [] \<Rightarrow> [[c]] | s # ss \<Rightarrow> (c # s) # ss))"

text \<open>\<^verbatim>\<open>xs[1]\<close> on a list of segments, with its \<^verbatim>\<open>IndexError\<close>.\<close>

fun subscript1 :: "string list \<Rightarrow> py_error + string" where
  "subscript1 (a # b # rest) = Inr b"
| "subscript1 _ = Inl IndexError"

text \<open>
  Python's \<^verbatim>\<open>==\<close> on parsed JSON values: \<^verbatim>\<open>bool\<close> is a subclass of \<^verbatim>\<open>int\<close> (\<^verbatim>\<open>True == 1\<close>), lists are
  compared element by element and dicts key by key; values of different kinds are unequal.
\<close>

fun py_eq :: "json \<Rightarrow> json \<Rightarrow> bool" where
  "py_eq JNull y = (case y of JNull \<Rightarrow> True | _ \<Rightarrow> False)"
| "py_eq (JBool a) y =
     (case y of JBool b \<Rightarrow> a = b | JNum j \<Rightarrow> j = (if a then 1 else 0) | _ \<Rightarrow> False)"
| "py_eq (JNum i) y =
     (case y of JBool b \<Rightarrow> i = (if b then 1 else 0) | JNum j \<Rightarrow> i = j | _ \<Rightarrow> False)"
| "py_eq (JStr s) y = (case y of JStr t \<Rightarrow> s = t | _ \<Rightarrow> False)"
| "py_eq (JList xs) y = (case y of JList ys \<Rightarrow> list_all2 py_eq xs ys | _ \<Rightarrow> False)"
| "py_eq (JDict a) y =
     (case y of
        JDict b \<Rightarrow>
          length a = length b \<and>
          list_all (\<lambda>(k, v). case map_of b k of None \<Rightarrow> False | Some w \<Rightarrow> py_eq v w) a
      | _ \<Rightarrow> False)"

text \<open>
  \<^verbatim>\<open>x in container\<close>: a list is searched with \<^verbatim>\<open>==\<close>; a dict is searched among its keys (an
  unhashable \<open>x\<close> raises \<^verbatim>\<open>TypeError\<close>); a string accepts only a string and tests for a
  substring; the other kinds of value are not containers.
\<close>

fun py_in :: "json \<Rightarrow> json \<Rightarrow> py_error + bool" where
  "py_in x (JList ys) = Inr (list_ex (py_eq x) ys)"
| "py_in x (JDict kvs) =
     (case x of
        JStr k \<Rightarrow> Inr (map_of kvs k \<noteq> None)
      | JList _ \<Rightarrow> Inl TypeError
      | JDict _ \<Rightarrow> Inl TypeError
      | _ \<Rightarrow> Inr False)"
| "py_in x (JStr s) = (case x of JStr t \<Rightarrow> Inr (sublist t s) | _ \<Rightarrow> Inl TypeError)"
| "py_in x _ = Inl TypeError"

section \<open>The files read, the log and the report\<close>

text \<open>
  What \<^verbatim>\<open>JsonComment().load\<close> makes of a file: the parsed value, or a \<^verbatim>\<open>JSONDecodeError\<close>. For a
  file that does not parse, \<open>Unparseable\<close> carries the text \<^verbatim>\<open>json._preprocess(lines)\<close> returns,
  which \<^verbatim>\<open>main\<close> dumps.
\<close>

datatype doc = Unparseable string | Parsed json

datatype level = DEBUG | INFO | WARNING | ERROR | CRITICAL

text \<open>
  One constructor for each logging call of \<^verbatim>\<open>main\<close>, with the values its message is formatted
  from. \<^verbatim>\<open>logger.exception\<close> logs at level \<open>ERROR\<close>.
\<close>

datatype message =
    Invalid_game_directory string string
  | Config_file_not_found
  | Invalid_config_file
  | Loading_manifest_file string
  | Invalid_mod_manifest string string
  | Unknown_update_key string
  | Missing_or_invalid_update_key json

type_synonym log_entry = "level \<times> message"

text \<open>The dict \<^verbatim>\<open>mod\<close> (keys \<^verbatim>\<open>name\<close>, \<^verbatim>\<open>version\<close>, \<^verbatim>\<open>description\<close>, \<^verbatim>\<open>url\<close>) and the dict \<^verbatim>\<open>res\<close>.\<close>

record mod_record =
  name :: json
  version :: json
  description :: json
  url :: string

record report =
  Framework :: "mod_record list"
  Content :: "mod_record list"
  Regular :: "mod_record list"

text \<open>
  The part of the machine \<^verbatim>\<open>main\<close> reads and writes. Read: the names of the entries of the
  game directory, the configuration file (\<open>None\<close> when \<^verbatim>\<open>configfile.is_file()\<close> is false), and
  the manifests matched by \<^verbatim>\<open>(gamedir / 'Mods').glob('*/manifest.json')\<close>, in the order the glob
  yields them, each with the name of its directory. Written: the log, the dump files (name
  and text, in the order of the writes) and the report handed to the template.
\<close>

record world =
  os_sep :: char
  gamedir :: string
  root_files :: "string list"
  config_file :: "doc option"
  manifests :: "(string \<times> doc) list"
  logged :: "log_entry list"
  written :: "(string \<times> string) list"
  rendered :: "report option"

definition logger :: "level \<Rightarrow> message \<Rightarrow> world \<Rightarrow> world" where
  "logger l m w = w\<lparr>logged := logged w @ [(l, m)]\<rparr>"

text \<open>
  \<^verbatim>\<open>not (gamedir / 'Stardew Valley.exe')\<close> negates the truth value of a \<^verbatim>\<open>Path\<close> object. \<^verbatim>\<open>pathlib\<close>
  defines neither \<^verbatim>\<open>__bool__\<close> nor \<^verbatim>\<open>__len__\<close> for paths, so every \<^verbatim>\<open>Path\<close> is true, whether or not
  a file of that name exists: the test does not look at \<open>root_files\<close>.
\<close>

definition path_bool :: "world \<Rightarrow> string \<Rightarrow> bool" where
  "path_bool w file = True"

text \<open>\<^verbatim>\<open>p.relative_to(gamedir / "Mods")\<close> and the name of the dump file made from it.\<close>

definition relative_to_mods :: "char \<Rightarrow> string \<Rightarrow> string" where
  "relative_to_mods sep dir = dir @ [sep] @ ''manifest.json''"

definition tempname :: "char \<Rightarrow> string \<Rightarrow> string" where
  "tempname sep dir = map (\<lambda>c. if c = sep then CHR ''_'' else c) (relative_to_mods sep dir)"

section \<open>The statements of \<^verbatim>\<open>main\<close>\<close>

text \<open>Lines 76 to 85: the configuration, \<^verbatim>\<open>{'Framework': []}\<close> unless a file is loaded.\<close>

definition default_config :: json where
  "default_config = JDict [(''Framework'', JList [])]"

definition load_config :: "world \<Rightarrow> json \<times> world" where
  "load_config w =
     (case config_file w of
        None \<Rightarrow> (default_config, logger WARNING Config_file_not_found w)
      | Some (Parsed c) \<Rightarrow> (c, w)
      | Some (Unparseable t) \<Rightarrow> (default_config, logger ERROR Invalid_config_file w))"

text \<open>
  Lines 90 to 104: one manifest is loaded; when it does not parse, its preprocessed text is
  dumped, the exception is logged and \<^verbatim>\<open>manifest\<close> is \<^verbatim>\<open>None\<close>.
\<close>

definition load_manifest :: "string \<times> doc \<Rightarrow> world \<Rightarrow> json \<times> world" where
  "load_manifest p w =
     (let w1 = logger DEBUG (Loading_manifest_file (relative_to_mods (os_sep w) (fst p))) w
      in case snd p of
           Parsed manifest \<Rightarrow> (manifest, w1)
         | Unparseable rez \<Rightarrow>
             (let w2 = w1\<lparr>written := written w1 @ [(tempname (os_sep w) (fst p), rez)]\<rparr>
              in (JNull,
                  logger ERROR
                    (Invalid_mod_manifest (relative_to_mods (os_sep w) (fst p))
                       (tempname (os_sep w) (fst p))) w2)))"

text \<open>Lines 109 and 110: the record, its \<^verbatim>\<open>url\<close> still to be set (line 126).\<close>

definition new_mod :: "json \<Rightarrow> py_error + mod_record" where
  "new_mod manifest =
     (case subscript manifest ''Name'' of
        Inl e \<Rightarrow> Inl e
      | Inr n \<Rightarrow>
          (case subscript manifest ''Version'' of
             Inl e \<Rightarrow> Inl e
           | Inr v \<Rightarrow>
               (case py_get manifest ''Description'' (JStr ''???'') of
                  Inl e \<Rightarrow> Inl e
                | Inr d \<Rightarrow> Inr \<lparr>name = n, version = v, description = d, url = []\<rparr>)))"

text \<open>
  Lines 113 to 121, the body of the \<^verbatim>\<open>try\<close>: the first update key in lower case, and the link of
  the first provider whose name the key starts with. The result is the value of \<^verbatim>\<open>mod_link\<close>
  with the log entries made, or the exception raised.
\<close>

definition format_link :: "string \<Rightarrow> string \<Rightarrow> string \<Rightarrow> py_error + string \<times> log_entry list" where
  "format_link front back mod_link =
     (case subscript1 (split_on CHR '':'' mod_link) of
        Inl e \<Rightarrow> Inl e
      | Inr i \<Rightarrow> Inr (front @ i @ back, []))"

definition mod_link_try :: "json \<Rightarrow> py_error + string \<times> log_entry list" where
  "mod_link_try manifest =
     (case subscript manifest ''UpdateKeys'' of
        Inl e \<Rightarrow> Inl e
      | Inr ks \<Rightarrow>
          (case subscript0 ks of
             Inl e \<Rightarrow> Inl e
           | Inr k \<Rightarrow>
               (case py_lower k of
                  Inl e \<Rightarrow> Inl e
                | Inr mod_link \<Rightarrow>
                    if prefix ''chucklefish'' mod_link then
                      format_link ''https://community.playstarbound.com/resources/'' ''/'' mod_link
                    else if prefix ''nexus'' mod_link then
                      format_link ''https://www.nexusmods.com/stardewvalley/mods/'' [] mod_link
                    else if prefix ''github'' mod_link then
                      format_link ''https://github.com/'' ''/releases'' mod_link
                    else Inr (mod_link, [(ERROR, Unknown_update_key mod_link)]))))"

text \<open>
  Lines 112 to 124: the \<^verbatim>\<open>except (IndexError, KeyError)\<close> clause logs and sets the empty link;
  any other exception leaves the \<^verbatim>\<open>try\<close> statement.
\<close>

definition missing_link :: "json \<Rightarrow> py_error + string \<times> log_entry list" where
  "missing_link manifest =
     (case py_get manifest ''UpdateKeys'' (JStr ''None'') of
        Inl e \<Rightarrow> Inl e
      | Inr v \<Rightarrow> Inr ([], [(ERROR, Missing_or_invalid_update_key v)]))"

definition mod_link_of :: "json \<Rightarrow> py_error + string \<times> log_entry list" where
  "mod_link_of manifest =
     (case mod_link_try manifest of
        Inl IndexError \<Rightarrow> missing_link manifest
      | Inl KeyError \<Rightarrow> missing_link manifest
      | Inl e \<Rightarrow> Inl e
      | Inr r \<Rightarrow> Inr r)"

text \<open>Lines 128 to 134: the record is appended to one of the three lists of \<^verbatim>\<open>res\<close>.\<close>

definition classify :: "json \<Rightarrow> json \<Rightarrow> mod_record \<Rightarrow> report \<Rightarrow> py_error + report" where
  "classify config manifest m res =
     (case py_in (JStr ''ContentPackFor'') manifest of
        Inl e \<Rightarrow> Inl e
      | Inr True \<Rightarrow> Inr (res\<lparr>Content := Content res @ [m]\<rparr>)
      | Inr False \<Rightarrow>
          (case subscript manifest ''Name'' of
             Inl e \<Rightarrow> Inl e
           | Inr n \<Rightarrow>
               (case subscript config ''Framework'' of
                  Inl e \<Rightarrow> Inl e
                | Inr fw \<Rightarrow>
                    (case py_in n fw of
                       Inl e \<Rightarrow> Inl e
                     | Inr True \<Rightarrow> Inr (res\<lparr>Framework := Framework res @ [m]\<rparr>)
                     | Inr False \<Rightarrow> Inr (res\<lparr>Regular := Regular res @ [m]\<rparr>)))))"

text \<open>
  Lines 90 to 134, one turn of the loop over the manifests. An exception that no clause
  catches ends the turn with \<open>Inl\<close>; what was logged and written before stays.
\<close>

definition process_manifest ::
  "json \<Rightarrow> string \<times> doc \<Rightarrow> report \<times> world \<Rightarrow> (py_error + report) \<times> world" where
  "process_manifest config p st =
     (case load_manifest p (snd st) of
        (manifest, w1) \<Rightarrow>
          if \<not> truthy manifest then (Inr (fst st), w1)
          else
            (case new_mod manifest of
               Inl e \<Rightarrow> (Inl e, w1)
             | Inr m \<Rightarrow>
                 (case mod_link_of manifest of
                    Inl e \<Rightarrow> (Inl e, w1)
                  | Inr (mod_link, entries) \<Rightarrow>
                      (classify config manifest (m\<lparr>url := mod_link\<rparr>) (fst st),
                       w1\<lparr>logged := logged w1 @ entries\<rparr>))))"

text \<open>Lines 89 to 134: the loop; an uncaught exception ends it.\<close>

fun scan_loop ::
  "json \<Rightarrow> (string \<times> doc) list \<Rightarrow> report \<times> world \<Rightarrow> (py_error + report) \<times> world" where
  "scan_loop config [] st = (Inr (fst st), snd st)"
| "scan_loop config (p # ps) st =
     (case process_manifest config p st of
        (Inl e, w) \<Rightarrow> (Inl e, w)
      | (Inr res, w) \<Rightarrow> scan_loop config ps (res, w))"

text \<open>
  How a run of \<^verbatim>\<open>main\<close> ends: the template is rendered from the report, \<^verbatim>\<open>exit\<close> is called with a
  status, or an exception that nothing catches ends the process with a traceback.
\<close>

datatype outcome = Completed report | Exit nat | Raised py_error

definition main :: "world \<Rightarrow> outcome \<times> world" where
  "main w =
     (if \<not> path_bool w ''Stardew Valley.exe'' then
        (Exit 1, logger CRITICAL (Invalid_game_directory (gamedir w) ''Stardew Valley.exe'') w)
      else if \<not> path_bool w ''StardewModdingAPI.exe'' then
        (Exit 1, logger CRITICAL (Invalid_game_directory (gamedir w) ''StardewModdingAPI.exe'') w)
      else
        (case load_config w of
           (config, w1) \<Rightarrow>
             (case scan_loop config (manifests w1)
                     (\<lparr>Framework = [], Content = [], Regular = []\<rparr>, w1) of
                (Inl e, w2) \<Rightarrow> (Raised e, w2)
              | (Inr res, w2) \<Rightarrow> (Completed res, w2\<lparr>rendered := Some res\<rparr>))))"

section \<open>Definitions used to state the properties\<close>

text \<open>
  The id as the specification describes it: the portion of an update key after its first
  delimiter.
\<close>

definition after_first_delimiter :: "string \<Rightarrow> string" where
  "after_first_delimiter key = tl (dropWhile (\<lambda>c. c \<noteq> CHR '':'') key)"

text \<open>
  The report described without the loop. \<open>passes\<close> gives the manifest of a descriptor that
  gets past \<^verbatim>\<open>if not manifest: continue\<close> (it parsed, and to a true value); \<open>record_of\<close> is the
  record lines 109 to 126 make of it; \<open>bucket_of\<close> is the list the tests of lines 128 and 131
  choose; \<open>placement\<close> puts the three together, and \<open>placed b\<close> lists, in the order of the
  descriptors, the records placed in \<open>b\<close>.
\<close>

datatype bucket = To_Framework | To_Content | To_Regular

definition passes :: "string \<times> doc \<Rightarrow> json option" where
  "passes p =
     (case snd p of
        Unparseable t \<Rightarrow> None
      | Parsed manifest \<Rightarrow> if truthy manifest then Some manifest else None)"

definition record_of :: "json \<Rightarrow> mod_record option" where
  "record_of manifest =
     (case new_mod manifest of
        Inl e \<Rightarrow> None
      | Inr m \<Rightarrow>
          (case mod_link_of manifest of
             Inl e \<Rightarrow> None
           | Inr (mod_link, entries) \<Rightarrow> Some (m\<lparr>url := mod_link\<rparr>)))"

definition bucket_of :: "json \<Rightarrow> json \<Rightarrow> bucket option" where
  "bucket_of config manifest =
     (case py_in (JStr ''ContentPackFor'') manifest of
        Inl e \<Rightarrow> None
      | Inr True \<Rightarrow> Some To_Content
      | Inr False \<Rightarrow>
          (case subscript manifest ''Name'' of
             Inl e \<Rightarrow> None
           | Inr n \<Rightarrow>
               (case subscript config ''Framework'' of
                  Inl e \<Rightarrow> None
                | Inr fw \<Rightarrow>
                    (case py_in n fw of
                       Inl e \<Rightarrow> None
                     | Inr True \<Rightarrow> Some To_Framework
                     | Inr False \<Rightarrow> Some To_Regular))))"

definition placement :: "json \<Rightarrow> string \<times> doc \<Rightarrow> (bucket \<times> mod_record) option" where
  "placement config p =
     (case passes p of
        None \<Rightarrow> None
      | Some manifest \<Rightarrow>
          (case record_of manifest of
             None \<Rightarrow> None
           | Some m \<Rightarrow>
               (case bucket_of config manifest of
                  None \<Rightarrow> None
                | Some b \<Rightarrow> Some (b, m))))"

definition placed :: "bucket \<Rightarrow> json \<Rightarrow> (string \<times> doc) list \<Rightarrow> mod_record list" where
  "placed b config ds =
     map snd (filter (\<lambda>bm. fst bm = b) (List.map_filter (placement config) ds))"

fun add_placement :: "(bucket \<times> mod_record) option \<Rightarrow> report \<Rightarrow> report" where
  "add_placement None res = res"
| "add_placement (Some (To_Framework, m)) res = res\<lparr>Framework := Framework res @ [m]\<rparr>"
| "add_placement (Some (To_Content, m)) res = res\<lparr>Content := Content res @ [m]\<rparr>"
| "add_placement (Some (To_Regular, m)) res = res\<lparr>Regular := Regular res @ [m]\<rparr>"

subsection \<open>Concrete inputs\<close>

text \<open>
  The members of manifests as they occur in an installation and of two broken ones, and a
  configuration.
\<close>

definition automate :: "(string \<times> json) list" where
  "automate =
     [(''Name'', JStr ''Automate''), (''Version'', JStr ''1.28.0''),
      (''Description'', JStr ''Lets machines pull from chests''),
      (''UpdateKeys'', JList [JStr ''Nexus:1063''])]"

definition content_patcher :: "(string \<times> json) list" where
  "content_patcher =
     [(''Name'', JStr ''Content Patcher''), (''Version'', JStr ''1.30.0''),
      (''UpdateKeys'', JList [JStr ''GitHub:Pathoschild/StardewMods''])]"

definition seasonal_outfits :: "(string \<times> json) list" where
  "seasonal_outfits =
     [(''Name'', JStr ''Seasonal Outfits''), (''Version'', JStr ''2.0''),
      (''ContentPackFor'', JDict [(''UniqueID'', JStr ''Pathoschild.ContentPatcher'')]),
      (''UpdateKeys'', JList [JStr ''ModDrop:123''])]"

definition spacecore_pack :: "(string \<times> json) list" where
  "spacecore_pack =
     [(''Name'', JStr ''SpaceCore''), (''Version'', JStr ''0.1''),
      (''ContentPackFor'', JDict [(''UniqueID'', JStr ''Pathoschild.ContentPatcher'')])]"

definition no_name :: "(string \<times> json) list" where
  "no_name = [(''Version'', JStr ''1.0''), (''Description'', JStr ''a mod without a name'')]"

definition no_version :: "(string \<times> json) list" where
  "no_version = [(''Name'', JStr ''Unversioned'')]"

definition framework_config :: json where
  "framework_config = JDict [(''Framework'', JList [JStr ''Content Patcher'', JStr ''SpaceCore''])]"

text \<open>
  The manifests of an installation in the order of the glob: one that does not parse, a
  content pack, one that is the empty object, and two mods.
\<close>

definition mixed_mods :: "(string \<times> doc) list" where
  "mixed_mods =
     [(''Broken'', Unparseable ''{ Name: ''),
      (''SeasonalOutfits'', Parsed (JDict seasonal_outfits)),
      (''Empty'', Parsed (JDict [])),
      (''ContentPatcher'', Parsed (JDict content_patcher)),
      (''Automate'', Parsed (JDict automate))]"

text \<open>
  An installation with both marker files, before a run: nothing logged, written or
  rendered yet.
\<close>

definition installation :: "doc option \<Rightarrow> (string \<times> doc) list \<Rightarrow> world" where
  "installation cfg ms =
     \<lparr>os_sep = CHR ''/'', gamedir = ''/games/Stardew Valley'',
      root_files = [''Mods'', ''Stardew Valley.exe'', ''StardewModdingAPI.exe''],
      config_file = cfg, manifests = ms, logged = [], written = [], rendered = None\<rparr>"

section \<open>Facts about the model\<close>

lemmas model_defs =
  main_def path_bool_def load_config_def default_config_def logger_def process_manifest_def
  load_manifest_def new_mod_def mod_link_of_def mod_link_try_def missing_link_def format_link_def
  classify_def relative_to_mods_def tempname_def lower_char_def

lemmas example_defs =
  installation_def automate_def content_patcher_def seasonal_outfits_def spacecore_pack_def no_name_def
  no_version_def framework_config_def

subsection \<open>Values\<close>

lemma py_eq_JStr [simp]: "py_eq (JStr s) y \<longleftrightarrow> y = JStr s"
  by (cases y) auto

lemma py_in_JStr_JList: "py_in (JStr s) (JList ys) = Inr (JStr s \<in> set ys)"
  by (auto simp: list_ex_iff split: json.splits)

lemma split_on_not_Nil [simp]: "split_on d s \<noteq> []"
  by (induction s) (auto split: list.splits)

lemma split_on_takeWhile:
  "split_on d s =
     takeWhile (\<lambda>c. c \<noteq> d) s #
     (if d \<in> set s then split_on d (tl (dropWhile (\<lambda>c. c \<noteq> d) s)) else [])"
  by (induction s) (auto split: list.splits)

lemma hd_split_on: "hd (split_on d s) = takeWhile (\<lambda>c. c \<noteq> d) s"
  by (subst split_on_takeWhile) simp

lemma subscript1_split_on:
  "subscript1 (split_on d s) =
     (if d \<in> set s then Inr (takeWhile (\<lambda>c. c \<noteq> d) (tl (dropWhile (\<lambda>c. c \<noteq> d) s)))
      else Inl IndexError)"
proof (cases "d \<in> set s")
  case True
  obtain a rest where r: "split_on d (tl (dropWhile (\<lambda>c. c \<noteq> d) s)) = a # rest"
    by (cases "split_on d (tl (dropWhile (\<lambda>c. c \<noteq> d) s))") auto
  have "a = takeWhile (\<lambda>c. c \<noteq> d) (tl (dropWhile (\<lambda>c. c \<noteq> d) s))"
    using hd_split_on [of d "tl (dropWhile (\<lambda>c. c \<noteq> d) s)"] r by simp
  then show ?thesis
    using True r by (subst split_on_takeWhile) simp
next
  case False
  then show ?thesis by (subst split_on_takeWhile) simp
qed

lemma lower_char_colon: "lower_char c = CHR '':'' \<longleftrightarrow> c = CHR '':''"
proof (cases "65 \<le> (of_char c :: nat) \<and> (of_char c :: nat) \<le> 90")
  case True
  then have "of_char (lower_char c) = (of_char c :: nat) + 32"
    by (simp add: lower_char_def)
  then have "of_char (lower_char c) \<noteq> (58 :: nat)" "of_char c \<noteq> (58 :: nat)"
    using True by auto
  then show ?thesis by auto
next
  case False
  then show ?thesis by (auto simp: lower_char_def)
qed

lemma after_first_delimiter_lower:
  "takeWhile (\<lambda>c. c \<noteq> CHR '':'') (after_first_delimiter (map lower_char key)) =
   map lower_char (takeWhile (\<lambda>c. c \<noteq> CHR '':'') (after_first_delimiter key))"
proof -
  have c: "(\<lambda>c. c \<noteq> CHR '':'') \<circ> lower_char = (\<lambda>c. c \<noteq> CHR '':'')"
    by (rule ext) (simp add: lower_char_colon)
  have "after_first_delimiter (map lower_char key) = map lower_char (after_first_delimiter key)"
    by (simp add: after_first_delimiter_def dropWhile_map c map_tl)
  then show ?thesis
    by (simp add: takeWhile_map c)
qed

subsection \<open>The link\<close>

lemma provider_prefixes_differ:
  "prefix ''nexus'' s \<Longrightarrow> \<not> prefix ''chucklefish'' s"
  "prefix ''github'' s \<Longrightarrow> \<not> prefix ''chucklefish'' s"
  "prefix ''github'' s \<Longrightarrow> \<not> prefix ''nexus'' s"
  by (cases s; simp)+

lemma mod_link_try_key:
  assumes "map_of kvs ''UpdateKeys'' = Some (JList (JStr key # others))"
  shows "mod_link_try (JDict kvs) =
     (let mod_link = map lower_char key in
      if prefix ''chucklefish'' mod_link then
        format_link ''https://community.playstarbound.com/resources/'' ''/'' mod_link
      else if prefix ''nexus'' mod_link then
        format_link ''https://www.nexusmods.com/stardewvalley/mods/'' [] mod_link
      else if prefix ''github'' mod_link then
        format_link ''https://github.com/'' ''/releases'' mod_link
      else Inr (mod_link, [(ERROR, Unknown_update_key mod_link)]))"
  using assms by (simp add: mod_link_try_def Let_def)

lemma mod_link_of_formatted:
  assumes "map_of kvs ''UpdateKeys'' = Some (JList (JStr key # others))"
    and "subscript1 (split_on CHR '':'' (map lower_char key)) = Inr i"
  shows "prefix ''chucklefish'' (map lower_char key) \<Longrightarrow>
           mod_link_of (JDict kvs) =
             Inr (''https://community.playstarbound.com/resources/'' @ i @ ''/'', [])"
    and "prefix ''nexus'' (map lower_char key) \<Longrightarrow>
           mod_link_of (JDict kvs) =
             Inr (''https://www.nexusmods.com/stardewvalley/mods/'' @ i, [])"
    and "prefix ''github'' (map lower_char key) \<Longrightarrow>
           mod_link_of (JDict kvs) =
             Inr (''https://github.com/'' @ i @ ''/releases'', [])"
proof -
  have f: "format_link a b (map lower_char key) = Inr (a @ i @ b, [])" for a b
    by (simp add: format_link_def assms(2))
  show "prefix ''chucklefish'' (map lower_char key) \<Longrightarrow>
           mod_link_of (JDict kvs) =
             Inr (''https://community.playstarbound.com/resources/'' @ i @ ''/'', [])"
    by (simp add: mod_link_of_def mod_link_try_key [OF assms(1)] Let_def f)
  show "prefix ''nexus'' (map lower_char key) \<Longrightarrow>
           mod_link_of (JDict kvs) =
             Inr (''https://www.nexusmods.com/stardewvalley/mods/'' @ i, [])"
    using provider_prefixes_differ(1) [of "map lower_char key"]
    by (simp add: mod_link_of_def mod_link_try_key [OF assms(1)] Let_def f)
  show "prefix ''github'' (map lower_char key) \<Longrightarrow>
           mod_link_of (JDict kvs) =
             Inr (''https://github.com/'' @ i @ ''/releases'', [])"
    using provider_prefixes_differ(2,3) [of "map lower_char key"]
    by (simp add: mod_link_of_def mod_link_try_key [OF assms(1)] Let_def f)
qed

text \<open>
  The \<^verbatim>\<open>except\<close> clause: no \<^verbatim>\<open>UpdateKeys\<close>, an empty list, or a first key of a recognized provider
  without a delimiter give the empty link. The \<^verbatim>\<open>else\<close> branch: a first key of no recognized
  provider stays, in lower case, as the link.
\<close>

lemma mod_link_of_missing:
  "map_of kvs ''UpdateKeys'' = None \<Longrightarrow>
   mod_link_of (JDict kvs) = Inr ([], [(ERROR, Missing_or_invalid_update_key (JStr ''None''))])"
  "map_of kvs ''UpdateKeys'' = Some (JList []) \<Longrightarrow>
   mod_link_of (JDict kvs) = Inr ([], [(ERROR, Missing_or_invalid_update_key (JList []))])"
  by (simp_all add: mod_link_of_def mod_link_try_def missing_link_def)

lemma mod_link_of_no_delimiter:
  assumes "map_of kvs ''UpdateKeys'' = Some (JList (JStr key # others))"
    and "CHR '':'' \<notin> set key"
    and "prefix ''chucklefish'' (map lower_char key) \<or> prefix ''nexus'' (map lower_char key) \<or>
         prefix ''github'' (map lower_char key)"
  shows "mod_link_of (JDict kvs) =
     Inr ([], [(ERROR, Missing_or_invalid_update_key (JList (JStr key # others)))])"
proof -
  have "CHR '':'' \<notin> set (map lower_char key)"
  proof
    assume "CHR '':'' \<in> set (map lower_char key)"
    then obtain c where "c \<in> set key" "lower_char c = CHR '':''"
      by auto
    then show False
      using assms(2) by (simp add: lower_char_colon)
  qed
  then have "format_link a b (map lower_char key) = Inl IndexError" for a b
    by (simp add: format_link_def subscript1_split_on)
  then show ?thesis
    using assms(3)
    by (auto simp: mod_link_of_def mod_link_try_key [OF assms(1)] Let_def missing_link_def assms(1))
qed

lemma mod_link_of_unknown_provider:
  assumes "map_of kvs ''UpdateKeys'' = Some (JList (JStr key # others))"
    and "\<not> prefix ''chucklefish'' (map lower_char key)"
    and "\<not> prefix ''nexus'' (map lower_char key)"
    and "\<not> prefix ''github'' (map lower_char key)"
  shows "mod_link_of (JDict kvs) =
     Inr (map lower_char key, [(ERROR, Unknown_update_key (map lower_char key))])"
  using assms(2-4) by (simp add: mod_link_of_def mod_link_try_key [OF assms(1)] Let_def)

subsection \<open>One turn of the loop\<close>

lemma new_mod_KeyError:
  "map_of kvs ''Name'' = None \<or> map_of kvs ''Version'' = None \<Longrightarrow>
   new_mod (JDict kvs) = Inl KeyError"
  by (auto simp: new_mod_def split: option.splits)

lemma new_mod_Inr:
  assumes "map_of kvs ''Name'' = Some n" and "map_of kvs ''Version'' = Some v"
  shows "new_mod (JDict kvs) =
     Inr \<lparr>name = n, version = v,
          description = (case map_of kvs ''Description'' of None \<Rightarrow> JStr ''???'' | Some t \<Rightarrow> t),
          url = []\<rparr>"
  using assms by (simp add: new_mod_def split: option.splits)

lemma load_manifest_Parsed:
  "load_manifest (d, Parsed manifest) w =
     (manifest, logger DEBUG (Loading_manifest_file (relative_to_mods (os_sep w) d)) w)"
  by (simp add: load_manifest_def)

lemma fst_load_manifest:
  "fst (load_manifest p w) = (case snd p of Unparseable t \<Rightarrow> JNull | Parsed manifest \<Rightarrow> manifest)"
  by (simp add: load_manifest_def Let_def split: doc.splits)

lemma load_manifest_frame:
  "manifests (snd (load_manifest p w)) = manifests w"
  "config_file (snd (load_manifest p w)) = config_file w"
  by (simp_all add: load_manifest_def logger_def Let_def split: doc.splits)

lemma process_manifest_KeyError:
  assumes "kvs \<noteq> []" and "map_of kvs ''Name'' = None \<or> map_of kvs ''Version'' = None"
  shows "process_manifest config (d, Parsed (JDict kvs)) (res, w) =
           (Inl KeyError, logger DEBUG (Loading_manifest_file (relative_to_mods (os_sep w) d)) w)"
  using assms by (simp add: process_manifest_def load_manifest_def new_mod_KeyError)

lemma fst_process_manifest:
  "fst (process_manifest config p (res, w)) =
     (case passes p of
        None \<Rightarrow> Inr res
      | Some manifest \<Rightarrow>
          (case new_mod manifest of
             Inl e \<Rightarrow> Inl e
           | Inr m \<Rightarrow>
               (case mod_link_of manifest of
                  Inl e \<Rightarrow> Inl e
                | Inr (mod_link, entries) \<Rightarrow> classify config manifest (m\<lparr>url := mod_link\<rparr>) res)))"
proof (cases "load_manifest p w")
  case (Pair manifest w1)
  then have "manifest = (case snd p of Unparseable t \<Rightarrow> JNull | Parsed manifest \<Rightarrow> manifest)"
    using fst_load_manifest [of p w] by simp
  then show ?thesis
    by (simp add: process_manifest_def Pair passes_def split: doc.splits sum.splits prod.splits)
qed

lemma process_manifest_frame:
  "manifests (snd (process_manifest config p st)) = manifests (snd st)"
  "config_file (snd (process_manifest config p st)) = config_file (snd st)"
proof -
  obtain manifest w1 where l: "load_manifest p (snd st) = (manifest, w1)"
    by (cases "load_manifest p (snd st)") auto
  then have "manifests w1 = manifests (snd st)" "config_file w1 = config_file (snd st)"
    using load_manifest_frame [of p "snd st"] by simp_all
  then show "manifests (snd (process_manifest config p st)) = manifests (snd st)"
    "config_file (snd (process_manifest config p st)) = config_file (snd st)"
    by (simp_all add: process_manifest_def l split: sum.splits prod.splits)
qed

subsection \<open>The loop and the run\<close>

lemma scan_loop_append:
  "scan_loop config (xs @ ys) st =
     (case scan_loop config xs st of
        (Inl e, w) \<Rightarrow> (Inl e, w)
      | (Inr res, w) \<Rightarrow> scan_loop config ys (res, w))"
  by (induction xs arbitrary: st) (auto split: prod.splits sum.splits)

lemma fst_scan_loop_world:
  "fst (scan_loop config ds (res, w1)) = fst (scan_loop config ds (res, w2))"
proof (induction ds arbitrary: res w1 w2)
  case Nil
  show ?case by simp
next
  case (Cons p ps)
  have eq: "fst (process_manifest config p (res, w1)) = fst (process_manifest config p (res, w2))"
    by (simp add: fst_process_manifest)
  show ?case
  proof (cases "process_manifest config p (res, w1)")
    case (Pair r1 v1)
    obtain r2 v2 where p2: "process_manifest config p (res, w2) = (r2, v2)"
      by (cases "process_manifest config p (res, w2)") auto
    have r: "r2 = r1" using eq Pair p2 by simp
    show ?thesis
    proof (cases r1)
      case (Inl e)
      then show ?thesis by (simp add: Pair p2 r)
    next
      case (Inr res')
      then show ?thesis using Cons.IH [of res' v1 v2] by (simp add: Pair p2 r)
    qed
  qed
qed

lemma scan_loop_frame:
  "manifests (snd (scan_loop config ds st)) = manifests (snd st) \<and>
   config_file (snd (scan_loop config ds st)) = config_file (snd st)"
proof (induction ds arbitrary: st)
  case Nil
  show ?case by simp
next
  case (Cons p ps)
  show ?case
  proof (cases "process_manifest config p st")
    case (Pair r v)
    then have "manifests v = manifests (snd st)" "config_file v = config_file (snd st)"
      using process_manifest_frame [of config p st] by simp_all
    then show ?thesis
      using Cons.IH [of "(r', v)" for r'] by (cases r) (simp_all add: Pair)
  qed
qed

lemma load_config_frame:
  "manifests (snd (load_config w)) = manifests w"
  "config_file (snd (load_config w)) = config_file w"
  "os_sep (snd (load_config w)) = os_sep w"
  by (simp_all add: load_config_def logger_def split: option.splits doc.splits)

lemma fst_load_config:
  "fst (load_config w) =
     (case config_file w of Some (Parsed c) \<Rightarrow> c | _ \<Rightarrow> default_config)"
  by (simp add: load_config_def split: option.splits doc.splits)

lemma main_scan:
  "main w =
     (case scan_loop (fst (load_config w)) (manifests w)
             (\<lparr>Framework = [], Content = [], Regular = []\<rparr>, snd (load_config w)) of
        (Inl e, w2) \<Rightarrow> (Raised e, w2)
      | (Inr res, w2) \<Rightarrow> (Completed res, w2\<lparr>rendered := Some res\<rparr>))"
  using load_config_frame(1) [of w]
  by (cases "load_config w") (simp add: main_def path_bool_def)

lemma fst_main:
  "fst (main w) =
     (case fst (scan_loop (fst (load_config w)) (manifests w)
                  (\<lparr>Framework = [], Content = [], Regular = []\<rparr>, w)) of
        Inl e \<Rightarrow> Raised e
      | Inr res \<Rightarrow> Completed res)"
proof -
  have "fst (main w) =
     (case fst (scan_loop (fst (load_config w)) (manifests w)
                  (\<lparr>Framework = [], Content = [], Regular = []\<rparr>, snd (load_config w))) of
        Inl e \<Rightarrow> Raised e
      | Inr res \<Rightarrow> Completed res)"
    by (simp add: main_scan split: prod.splits sum.splits)
  then show ?thesis
    using fst_scan_loop_world [of _ _ _ "snd (load_config w)" w] by simp
qed

lemma main_Completed:
  "fst (main w) = Completed res \<Longrightarrow>
   \<exists>w'. scan_loop (fst (load_config w)) (manifests w)
          (\<lparr>Framework = [], Content = [], Regular = []\<rparr>, snd (load_config w)) = (Inr res, w')"
  by (auto simp: main_scan split: prod.splits sum.splits)

lemma main_frame:
  "manifests (snd (main w)) = manifests w"
  "config_file (snd (main w)) = config_file w"
proof -
  let ?s = "scan_loop (fst (load_config w)) (manifests w)
             (\<lparr>Framework = [], Content = [], Regular = []\<rparr>, snd (load_config w))"
  have "manifests (snd ?s) = manifests w" "config_file (snd ?s) = config_file w"
    using scan_loop_frame [of "fst (load_config w)" "manifests w"
        "(\<lparr>Framework = [], Content = [], Regular = []\<rparr>, snd (load_config w))"]
    by (simp_all add: load_config_frame)
  then show "manifests (snd (main w)) = manifests w" "config_file (snd (main w)) = config_file w"
    by (auto simp: main_scan split: prod.splits sum.splits)
qed

section \<open>Required fields of a manifest\<close>

text \<open>
  Claim C1, as the code has it. The claim says that a descriptor which parses but lacks
  \<^verbatim>\<open>Name\<close> or \<^verbatim>\<open>Version\<close> is treated as a parse failure of that descriptor alone: it adds no
  record and the scan goes on with the next descriptor. Lines 109 and 110 index the manifest
  with \<^verbatim>\<open>manifest['Name']\<close> and \<^verbatim>\<open>manifest['Version']\<close> outside any \<^verbatim>\<open>try\<close>. So for every manifest
  that parses to an object with at least one member and lacks one of the two keys, whatever
  the descriptors before it added, the run ends at that descriptor with a \<^verbatim>\<open>KeyError\<close> that
  nothing catches: the only trace of the descriptor is the debug line of its loading, no
  record is made of it, no later descriptor is loaded and nothing is rendered.
\<close>

theorem C1_missing_required_field:
  assumes "manifests w = earlier @ (d, Parsed (JDict kvs)) # rest"
    and "scan_loop (fst (load_config w)) earlier
           (\<lparr>Framework = [], Content = [], Regular = []\<rparr>, snd (load_config w)) = (Inr res, w')"
    and "kvs \<noteq> []"
    and "map_of kvs ''Name'' = None \<or> map_of kvs ''Version'' = None"
  shows "main w =
           (Raised KeyError,
            logger DEBUG (Loading_manifest_file (relative_to_mods (os_sep w') d)) w')"
  by (simp add: main_scan assms(1) scan_loop_append assms(2)
        process_manifest_KeyError [OF assms(3,4)])

text \<open>
  The amended claim C1 at an installation without configuration whose second manifest has
  no \<^verbatim>\<open>Version\<close>: the first manifest is processed, the run ends at the second, and the third
  is never loaded.
\<close>

theorem C1_missing_required_field_witness:
  "main (installation None
           [(''Automate'', Parsed (JDict automate)), (''Unversioned'', Parsed (JDict no_version)),
            (''ContentPatcher'', Parsed (JDict content_patcher))]) =
     (Raised KeyError,
      (installation None
         [(''Automate'', Parsed (JDict automate)), (''Unversioned'', Parsed (JDict no_version)),
          (''ContentPatcher'', Parsed (JDict content_patcher))])
      \<lparr>logged :=
         [(WARNING, Config_file_not_found),
          (DEBUG, Loading_manifest_file ''Automate/manifest.json''),
          (DEBUG, Loading_manifest_file ''Unversioned/manifest.json'')]\<rparr>)"
proof -
  let ?w = "installation None
           [(''Automate'', Parsed (JDict automate)), (''Unversioned'', Parsed (JDict no_version)),
            (''ContentPatcher'', Parsed (JDict content_patcher))]"
  let ?res = "\<lparr>Framework = [], Content = [],
      Regular = [\<lparr>name = JStr ''Automate'', version = JStr ''1.28.0'',
                  description = JStr ''Lets machines pull from chests'',
                  url = ''https://www.nexusmods.com/stardewvalley/mods/1063''\<rparr>]\<rparr>"
  let ?w' = "?w\<lparr>logged := [(WARNING, Config_file_not_found),
                          (DEBUG, Loading_manifest_file ''Automate/manifest.json'')]\<rparr>"
  have h1: "manifests ?w =
      [(''Automate'', Parsed (JDict automate))] @
      (''Unversioned'', Parsed (JDict no_version)) #
      [(''ContentPatcher'', Parsed (JDict content_patcher))]"
    by (simp add: installation_def)
  have h2: "scan_loop (fst (load_config ?w)) [(''Automate'', Parsed (JDict automate))]
           (\<lparr>Framework = [], Content = [], Regular = []\<rparr>, snd (load_config ?w)) = (Inr ?res, ?w')"
    by code_simp
  have h3: "no_version \<noteq> []"
    by (simp add: no_version_def)
  have h4: "map_of no_version ''Name'' = None \<or> map_of no_version ''Version'' = None"
    by (simp add: no_version_def)
  show ?thesis
    using C1_missing_required_field [OF h1 h2 h3 h4]
    by (simp add: logger_def relative_to_mods_def installation_def)
qed

text \<open>
  Claim C1 as stated fails: the first manifest has no \<^verbatim>\<open>Name\<close>, and the scan does not continue
  with the second, valid one. The run ends with the \<^verbatim>\<open>KeyError\<close>, the second manifest is never
  loaded and no report is rendered.
\<close>

theorem C1_scan_does_not_continue:
  "main (installation None [(''NoName'', Parsed (JDict no_name)), (''Automate'', Parsed (JDict automate))]) =
     (Raised KeyError,
      (installation None [(''NoName'', Parsed (JDict no_name)), (''Automate'', Parsed (JDict automate))])
      \<lparr>logged :=
         [(WARNING, Config_file_not_found),
          (DEBUG, Loading_manifest_file ''NoName/manifest.json'')]\<rparr>)"
  by (simp add: model_defs example_defs)

section \<open>The marker files of the game directory\<close>

text \<open>
  Claim C2 says that a game directory without \<^verbatim>\<open>Stardew Valley.exe\<close> or
  \<^verbatim>\<open>StardewModdingAPI.exe\<close> ends the program with a critical message and a nonzero status before
  any descriptor is read. The tests of lines 68 and 72 negate a \<^verbatim>\<open>Path\<close> object, which is always
  true, so they never fire. Here the game directory holds only \<^verbatim>\<open>Mods\<close>: the run loads the
  manifest, logs nothing critical and renders a report.
\<close>

theorem C2_missing_markers_not_detected:
  "''Stardew Valley.exe'' \<notin> set (root_files ((installation None [(''Automate'', Parsed (JDict automate))])
                                            \<lparr>root_files := [''Mods'']\<rparr>)) \<and>
   ''StardewModdingAPI.exe'' \<notin> set (root_files ((installation None [(''Automate'', Parsed (JDict automate))])
                                               \<lparr>root_files := [''Mods'']\<rparr>)) \<and>
   fst (main ((installation None [(''Automate'', Parsed (JDict automate))])\<lparr>root_files := [''Mods'']\<rparr>)) =
     Completed
       \<lparr>Framework = [], Content = [],
        Regular = [\<lparr>name = JStr ''Automate'', version = JStr ''1.28.0'',
                    description = JStr ''Lets machines pull from chests'',
                    url = ''https://www.nexusmods.com/stardewvalley/mods/1063''\<rparr>]\<rparr> \<and>
   logged (snd (main ((installation None [(''Automate'', Parsed (JDict automate))])
                      \<lparr>root_files := [''Mods'']\<rparr>))) =
     [(WARNING, Config_file_not_found),
      (DEBUG, Loading_manifest_file ''Automate/manifest.json'')]"
  by code_simp

section \<open>Update keys that do not resolve\<close>

text \<open>
  Claim C3 says that an update key with an unknown provider gives a record whose \<^verbatim>\<open>url\<close> is the
  empty string. The \<^verbatim>\<open>except\<close> clause of line 122 sets \<^verbatim>\<open>mod_link = ''\<close>, but the \<^verbatim>\<open>else\<close> branch of
  line 120 only logs, and \<^verbatim>\<open>mod_link\<close> keeps the key in lower case. Here the key is
  \<^verbatim>\<open>ModDrop:123\<close>: the record is made and the scan completes, with \<^verbatim>\<open>url\<close> \<^verbatim>\<open>moddrop:123\<close>.
\<close>

theorem C3_unknown_provider_keeps_key:
  "mod_link_of (JDict seasonal_outfits) =
     Inr (''moddrop:123'', [(ERROR, Unknown_update_key ''moddrop:123'')]) \<and>
   fst (main (installation None [(''SeasonalOutfits'', Parsed (JDict seasonal_outfits))])) =
     Completed
       \<lparr>Framework = [],
        Content = [\<lparr>name = JStr ''Seasonal Outfits'', version = JStr ''2.0'',
                    description = JStr ''???'', url = ''moddrop:123''\<rparr>],
        Regular = []\<rparr>"
  by code_simp

section \<open>Classification\<close>

text \<open>
  Claim C4. Take a manifest that parsed to an object with \<^verbatim>\<open>Name\<close> and \<^verbatim>\<open>Version\<close> and whose link
  is resolved without an uncaught exception, and let \<open>m\<close> be its record. If the manifest has
  the key \<^verbatim>\<open>ContentPackFor\<close>, the turn of the loop appends \<open>m\<close> to \<^verbatim>\<open>Content\<close>, whatever the
  configuration is. Otherwise, with \<^verbatim>\<open>config['Framework']\<close> the override list: if \<^verbatim>\<open>Name\<close> is in
  it, \<open>m\<close> is appended to \<^verbatim>\<open>Framework\<close>, and if not, to \<^verbatim>\<open>Regular\<close>. In each case the two other
  lists are left as they were.
\<close>

theorem C4_classification:
  assumes "map_of kvs ''Name'' = Some n" and "map_of kvs ''Version'' = Some v"
    and "mod_link_of (JDict kvs) = Inr (u, entries)"
    and "m = \<lparr>name = n, version = v,
              description = (case map_of kvs ''Description'' of None \<Rightarrow> JStr ''???'' | Some t \<Rightarrow> t),
              url = u\<rparr>"
  shows "(map_of kvs ''ContentPackFor'' \<noteq> None \<longrightarrow>
            fst (process_manifest config (d, Parsed (JDict kvs)) (res, w)) =
              Inr (res\<lparr>Content := Content res @ [m]\<rparr>)) \<and>
         (map_of kvs ''ContentPackFor'' = None \<longrightarrow>
            subscript config ''Framework'' = Inr fw \<longrightarrow> py_in n fw = Inr True \<longrightarrow>
            fst (process_manifest config (d, Parsed (JDict kvs)) (res, w)) =
              Inr (res\<lparr>Framework := Framework res @ [m]\<rparr>)) \<and>
         (map_of kvs ''ContentPackFor'' = None \<longrightarrow>
            subscript config ''Framework'' = Inr fw \<longrightarrow> py_in n fw = Inr False \<longrightarrow>
            fst (process_manifest config (d, Parsed (JDict kvs)) (res, w)) =
              Inr (res\<lparr>Regular := Regular res @ [m]\<rparr>))"
proof -
  have t: "truthy (JDict kvs)"
    using assms(1) by (cases kvs) auto
  have pm: "fst (process_manifest config (d, Parsed (JDict kvs)) (res, w)) =
      classify config (JDict kvs) m res"
    using t
    by (simp add: process_manifest_def load_manifest_Parsed new_mod_Inr [OF assms(1,2)] assms(3,4))
  show ?thesis
    unfolding pm using assms(1) by (auto simp: classify_def)
qed

text \<open>
  Claim C4 at four manifests, with \<^verbatim>\<open>Content Patcher\<close> and \<^verbatim>\<open>SpaceCore\<close> in the override list: a
  content pack, a content pack whose name is in the override list, a mod whose name is in
  the list, and a mod whose name is not.
\<close>

theorem C4_classification_witness:
  "fst (process_manifest framework_config (''SeasonalOutfits'', Parsed (JDict seasonal_outfits))
          (\<lparr>Framework = [], Content = [], Regular = []\<rparr>, installation None [])) =
     Inr \<lparr>Framework = [],
          Content = [\<lparr>name = JStr ''Seasonal Outfits'', version = JStr ''2.0'',
                      description = JStr ''???'', url = ''moddrop:123''\<rparr>],
          Regular = []\<rparr> \<and>
   fst (process_manifest framework_config (''SpaceCore'', Parsed (JDict spacecore_pack))
          (\<lparr>Framework = [], Content = [], Regular = []\<rparr>, installation None [])) =
     Inr \<lparr>Framework = [],
          Content = [\<lparr>name = JStr ''SpaceCore'', version = JStr ''0.1'',
                      description = JStr ''???'', url = []\<rparr>],
          Regular = []\<rparr> \<and>
   fst (process_manifest framework_config (''ContentPatcher'', Parsed (JDict content_patcher))
          (\<lparr>Framework = [], Content = [], Regular = []\<rparr>, installation None [])) =
     Inr \<lparr>Framework = [\<lparr>name = JStr ''Content Patcher'', version = JStr ''1.30.0'',
                        description = JStr ''???'',
                        url = ''https://github.com/pathoschild/stardewmods/releases''\<rparr>],
          Content = [], Regular = []\<rparr> \<and>
   fst (process_manifest framework_config (''Automate'', Parsed (JDict automate))
          (\<lparr>Framework = [], Content = [], Regular = []\<rparr>, installation None [])) =
     Inr \<lparr>Framework = [], Content = [],
          Regular = [\<lparr>name = JStr ''Automate'', version = JStr ''1.28.0'',
                      description = JStr ''Lets machines pull from chests'',
                      url = ''https://www.nexusmods.com/stardewvalley/mods/1063''\<rparr>]\<rparr>"
proof -
  let ?r = "\<lparr>Framework = [], Content = [], Regular = []\<rparr>"
  have l1: "mod_link_of (JDict seasonal_outfits) =
      Inr (''moddrop:123'', [(ERROR, Unknown_update_key ''moddrop:123'')])"
    by code_simp
  have l2: "mod_link_of (JDict spacecore_pack) =
      Inr ([], [(ERROR, Missing_or_invalid_update_key (JStr ''None''))])"
    by code_simp
  have l3: "mod_link_of (JDict content_patcher) =
      Inr (''https://github.com/pathoschild/stardewmods/releases'', [])"
    by code_simp
  have l4: "mod_link_of (JDict automate) =
      Inr (''https://www.nexusmods.com/stardewvalley/mods/1063'', [])"
    by code_simp
  have fw: "subscript framework_config ''Framework'' =
      Inr (JList [JStr ''Content Patcher'', JStr ''SpaceCore''])"
    by (simp add: framework_config_def)
  have c1: "fst (process_manifest framework_config
        (''SeasonalOutfits'', Parsed (JDict seasonal_outfits)) (?r, installation None [])) =
      Inr (?r\<lparr>Content := Content ?r @
        [\<lparr>name = JStr ''Seasonal Outfits'', version = JStr ''2.0'',
          description = JStr ''???'', url = ''moddrop:123''\<rparr>]\<rparr>)"
    using C4_classification [where n = "JStr ''Seasonal Outfits''" and v = "JStr ''2.0''"
        and config = framework_config and d = "''SeasonalOutfits''" and res = ?r
        and w = "installation None []", OF _ _ l1 refl]
    by (simp add: seasonal_outfits_def)
  have c2: "fst (process_manifest framework_config
        (''SpaceCore'', Parsed (JDict spacecore_pack)) (?r, installation None [])) =
      Inr (?r\<lparr>Content := Content ?r @
        [\<lparr>name = JStr ''SpaceCore'', version = JStr ''0.1'',
          description = JStr ''???'', url = []\<rparr>]\<rparr>)"
    using C4_classification [where n = "JStr ''SpaceCore''" and v = "JStr ''0.1''"
        and config = framework_config and d = "''SpaceCore''" and res = ?r
        and w = "installation None []", OF _ _ l2 refl]
    by (simp add: spacecore_pack_def)
  have c3: "fst (process_manifest framework_config
        (''ContentPatcher'', Parsed (JDict content_patcher)) (?r, installation None [])) =
      Inr (?r\<lparr>Framework := Framework ?r @
        [\<lparr>name = JStr ''Content Patcher'', version = JStr ''1.30.0'',
          description = JStr ''???'',
          url = ''https://github.com/pathoschild/stardewmods/releases''\<rparr>]\<rparr>)"
    using C4_classification [where n = "JStr ''Content Patcher''" and v = "JStr ''1.30.0''"
        and config = framework_config and d = "''ContentPatcher''" and res = ?r
        and w = "installation None []"
        and fw = "JList [JStr ''Content Patcher'', JStr ''SpaceCore'']", OF _ _ l3 refl] fw
    by (simp add: content_patcher_def)
  have c4: "fst (process_manifest framework_config
        (''Automate'', Parsed (JDict automate)) (?r, installation None [])) =
      Inr (?r\<lparr>Regular := Regular ?r @
        [\<lparr>name = JStr ''Automate'', version = JStr ''1.28.0'',
          description = JStr ''Lets machines pull from chests'',
          url = ''https://www.nexusmods.com/stardewvalley/mods/1063''\<rparr>]\<rparr>)"
    using C4_classification [where n = "JStr ''Automate''" and v = "JStr ''1.28.0''"
        and config = framework_config and d = "''Automate''" and res = ?r
        and w = "installation None []"
        and fw = "JList [JStr ''Content Patcher'', JStr ''SpaceCore'']", OF _ _ l4 refl] fw
    by (simp add: automate_def)
  show ?thesis
    using c1 c2 c3 c4 by simp
qed

section \<open>The link of a recognized provider\<close>

text \<open>
  Claim C5. Let the first update key of a manifest be a string which, in lower case, splits
  at the delimiter \<^verbatim>\<open>:\<close> into a first segment, a second segment \<open>i\<close> and possibly more. The
  provider is matched on the key in lower case, so in any mixture of cases: if the key then
  starts with \<^verbatim>\<open>chucklefish\<close>, \<^verbatim>\<open>nexus\<close> or \<^verbatim>\<open>github\<close>, the link is that provider's template filled
  with \<open>i\<close>, and nothing is logged.
\<close>

theorem C5_provider_links:
  assumes "map_of kvs ''UpdateKeys'' = Some (JList (JStr key # others))"
    and "split_on CHR '':'' (map lower_char key) = provider # i # rest"
  shows "(prefix ''chucklefish'' (map lower_char key) \<longrightarrow>
            mod_link_of (JDict kvs) =
              Inr (''https://community.playstarbound.com/resources/'' @ i @ ''/'', [])) \<and>
         (prefix ''nexus'' (map lower_char key) \<longrightarrow>
            mod_link_of (JDict kvs) =
              Inr (''https://www.nexusmods.com/stardewvalley/mods/'' @ i, [])) \<and>
         (prefix ''github'' (map lower_char key) \<longrightarrow>
            mod_link_of (JDict kvs) =
              Inr (''https://github.com/'' @ i @ ''/releases'', []))"
proof -
  have "subscript1 (split_on CHR '':'' (map lower_char key)) = Inr i"
    by (simp add: assms(2))
  from mod_link_of_formatted [OF assms(1) this] show ?thesis
    by blast
qed

text \<open>
  Claim C5 at the three keys the claim names, \<^verbatim>\<open>nexus:1234\<close>, \<^verbatim>\<open>github:owner/repo\<close> and
  \<^verbatim>\<open>chucklefish:42\<close>, and at \<^verbatim>\<open>NEXUS:1234\<close>, which resolves as \<^verbatim>\<open>nexus:1234\<close> does.
\<close>

theorem C5_provider_links_witness:
  "mod_link_of (JDict [(''UpdateKeys'', JList [JStr ''nexus:1234''])]) =
     Inr (''https://www.nexusmods.com/stardewvalley/mods/1234'', []) \<and>
   mod_link_of (JDict [(''UpdateKeys'', JList [JStr ''github:owner/repo''])]) =
     Inr (''https://github.com/owner/repo/releases'', []) \<and>
   mod_link_of (JDict [(''UpdateKeys'', JList [JStr ''chucklefish:42''])]) =
     Inr (''https://community.playstarbound.com/resources/42/'', []) \<and>
   mod_link_of (JDict [(''UpdateKeys'', JList [JStr ''NEXUS:1234''])]) =
     Inr (''https://www.nexusmods.com/stardewvalley/mods/1234'', [])"
proof -
  have k: "map_of [(''UpdateKeys'', JList [JStr key])] ''UpdateKeys'' = Some (JList (JStr key # []))"
    for key
    by simp
  have s1: "split_on CHR '':'' (map lower_char ''nexus:1234'') = ''nexus'' # ''1234'' # []"
    and p1: "prefix ''nexus'' (map lower_char ''nexus:1234'')"
    by code_simp+
  have s2: "split_on CHR '':'' (map lower_char ''github:owner/repo'') =
      ''github'' # ''owner/repo'' # []"
    and p2: "prefix ''github'' (map lower_char ''github:owner/repo'')"
    by code_simp+
  have s3: "split_on CHR '':'' (map lower_char ''chucklefish:42'') = ''chucklefish'' # ''42'' # []"
    and p3: "prefix ''chucklefish'' (map lower_char ''chucklefish:42'')"
    by code_simp+
  have s4: "split_on CHR '':'' (map lower_char ''NEXUS:1234'') = ''nexus'' # ''1234'' # []"
    and p4: "prefix ''nexus'' (map lower_char ''NEXUS:1234'')"
    by code_simp+
  have "mod_link_of (JDict [(''UpdateKeys'', JList [JStr ''nexus:1234''])]) =
     Inr (''https://www.nexusmods.com/stardewvalley/mods/'' @ ''1234'', [])"
    using C5_provider_links [OF k s1] p1 by blast
  moreover have "mod_link_of (JDict [(''UpdateKeys'', JList [JStr ''github:owner/repo''])]) =
     Inr (''https://github.com/'' @ ''owner/repo'' @ ''/releases'', [])"
    using C5_provider_links [OF k s2] p2 by blast
  moreover have "mod_link_of (JDict [(''UpdateKeys'', JList [JStr ''chucklefish:42''])]) =
     Inr (''https://community.playstarbound.com/resources/'' @ ''42'' @ ''/'', [])"
    using C5_provider_links [OF k s3] p3 by blast
  moreover have "mod_link_of (JDict [(''UpdateKeys'', JList [JStr ''NEXUS:1234''])]) =
     Inr (''https://www.nexusmods.com/stardewvalley/mods/'' @ ''1234'', [])"
    using C5_provider_links [OF k s4] p4 by blast
  ultimately show ?thesis
    by simp
qed

section \<open>The id put into the link\<close>

text \<open>
  Claim C6, as the code has it. The claim says that the id put into the template is the
  portion of the key after its first delimiter, unchanged. Line 113 puts the whole key in
  lower case before anything else and lines 115, 117 and 119 take \<^verbatim>\<open>mod_link.split(':')[1]\<close>. So
  for every first update key that holds a delimiter and has a recognized provider, the id is
  the portion of the key after its first delimiter and up to its second delimiter (to the
  end of the key when there is no second one), in lower case; nothing else is changed, and
  no character is escaped.
\<close>

theorem C6_id_of_link:
  assumes "map_of kvs ''UpdateKeys'' = Some (JList (JStr key # others))"
    and "CHR '':'' \<in> set key"
    and "i = map lower_char (takeWhile (\<lambda>c. c \<noteq> CHR '':'') (after_first_delimiter key))"
  shows "(prefix ''chucklefish'' (map lower_char key) \<longrightarrow>
            mod_link_of (JDict kvs) =
              Inr (''https://community.playstarbound.com/resources/'' @ i @ ''/'', [])) \<and>
         (prefix ''nexus'' (map lower_char key) \<longrightarrow>
            mod_link_of (JDict kvs) =
              Inr (''https://www.nexusmods.com/stardewvalley/mods/'' @ i, [])) \<and>
         (prefix ''github'' (map lower_char key) \<longrightarrow>
            mod_link_of (JDict kvs) =
              Inr (''https://github.com/'' @ i @ ''/releases'', []))"
proof -
  have "CHR '':'' \<in> lower_char ` set key"
    using assms(2) lower_char_colon [of "CHR '':''"] by (metis imageI)
  then have "CHR '':'' \<in> set (map lower_char key)"
    by simp
  then have "subscript1 (split_on CHR '':'' (map lower_char key)) =
      Inr (takeWhile (\<lambda>c. c \<noteq> CHR '':'') (after_first_delimiter (map lower_char key)))"
    unfolding subscript1_split_on after_first_delimiter_def by simp
  then have "subscript1 (split_on CHR '':'' (map lower_char key)) = Inr i"
    by (simp only: after_first_delimiter_lower assms(3))
  from mod_link_of_formatted [OF assms(1) this] show ?thesis
    by blast
qed

text \<open>
  The amended claim C6 at the keys \<^verbatim>\<open>GitHub:Pathoschild/StardewMods\<close> and \<^verbatim>\<open>Nexus:12:34\<close>: the ids
  are \<^verbatim>\<open>pathoschild/stardewmods\<close> and \<^verbatim>\<open>12\<close>.
\<close>

theorem C6_id_of_link_witness:
  "mod_link_of (JDict content_patcher) =
     Inr (''https://github.com/pathoschild/stardewmods/releases'', []) \<and>
   mod_link_of (JDict [(''UpdateKeys'', JList [JStr ''Nexus:12:34''])]) =
     Inr (''https://www.nexusmods.com/stardewvalley/mods/12'', [])"
proof -
  have k1: "map_of content_patcher ''UpdateKeys'' =
      Some (JList (JStr ''GitHub:Pathoschild/StardewMods'' # []))"
    by (simp add: content_patcher_def)
  have d1: "CHR '':'' \<in> set ''GitHub:Pathoschild/StardewMods''"
    by simp
  have i1: "''pathoschild/stardewmods'' =
      map lower_char (takeWhile (\<lambda>c. c \<noteq> CHR '':'')
        (after_first_delimiter ''GitHub:Pathoschild/StardewMods''))"
    by code_simp
  have p1: "prefix ''github'' (map lower_char ''GitHub:Pathoschild/StardewMods'')"
    by code_simp
  have k2: "map_of [(''UpdateKeys'', JList [JStr ''Nexus:12:34''])] ''UpdateKeys'' =
      Some (JList (JStr ''Nexus:12:34'' # []))"
    by simp
  have d2: "CHR '':'' \<in> set ''Nexus:12:34''"
    by simp
  have i2: "''12'' =
      map lower_char (takeWhile (\<lambda>c. c \<noteq> CHR '':'') (after_first_delimiter ''Nexus:12:34''))"
    by code_simp
  have p2: "prefix ''nexus'' (map lower_char ''Nexus:12:34'')"
    by code_simp
  have "mod_link_of (JDict content_patcher) =
     Inr (''https://github.com/'' @ ''pathoschild/stardewmods'' @ ''/releases'', [])"
    using C6_id_of_link [OF k1 d1 i1] p1 by blast
  moreover have "mod_link_of (JDict [(''UpdateKeys'', JList [JStr ''Nexus:12:34''])]) =
     Inr (''https://www.nexusmods.com/stardewvalley/mods/'' @ ''12'', [])"
    using C6_id_of_link [OF k2 d2 i2] p2 by blast
  ultimately show ?thesis
    by simp
qed

text \<open>
  Claim C6 as stated fails: for the key \<^verbatim>\<open>GitHub:Pathoschild/StardewMods\<close> the portion after the
  first delimiter is \<^verbatim>\<open>Pathoschild/StardewMods\<close>, and the link is not the template filled with
  it, but with \<^verbatim>\<open>pathoschild/stardewmods\<close>; for the key \<^verbatim>\<open>Nexus:12:34\<close> the portion is \<^verbatim>\<open>12:34\<close>, and
  the link is filled with \<^verbatim>\<open>12\<close>.
\<close>

theorem C6_id_is_not_verbatim:
  "after_first_delimiter ''GitHub:Pathoschild/StardewMods'' = ''Pathoschild/StardewMods'' \<and>
   mod_link_of (JDict content_patcher) \<noteq>
     Inr (''https://github.com/'' @ after_first_delimiter ''GitHub:Pathoschild/StardewMods'' @
          ''/releases'', []) \<and>
   mod_link_of (JDict content_patcher) =
     Inr (''https://github.com/pathoschild/stardewmods/releases'', []) \<and>
   after_first_delimiter ''Nexus:12:34'' = ''12:34'' \<and>
   mod_link_of (JDict [(''UpdateKeys'', JList [JStr ''Nexus:12:34''])]) \<noteq>
     Inr (''https://www.nexusmods.com/stardewvalley/mods/'' @
          after_first_delimiter ''Nexus:12:34'', []) \<and>
   mod_link_of (JDict [(''UpdateKeys'', JList [JStr ''Nexus:12:34''])]) =
     Inr (''https://www.nexusmods.com/stardewvalley/mods/12'', [])"
  by code_simp

section \<open>The configuration that cannot be read\<close>

lemma classify_default_Framework:
  "classify default_config manifest m res = Inr res' \<Longrightarrow> Framework res' = Framework res"
  by (auto simp: classify_def default_config_def split: sum.splits bool.splits)

lemma process_manifest_default_Framework:
  assumes "fst (process_manifest default_config p (res, w)) = Inr res'"
  shows "Framework res' = Framework res"
proof (cases "passes p")
  case None
  then show ?thesis using assms by (simp add: fst_process_manifest)
next
  case (Some manifest)
  from assms obtain m mod_link where
    "classify default_config manifest (m\<lparr>url := mod_link\<rparr>) res = Inr res'"
    by (auto simp: fst_process_manifest Some split: sum.splits prod.splits)
  then show ?thesis by (rule classify_default_Framework)
qed

lemma scan_loop_default_Framework:
  "fst (scan_loop default_config ds (res, w)) = Inr res' \<Longrightarrow> Framework res' = Framework res"
proof (induction ds arbitrary: res w)
  case Nil
  then show ?case by simp
next
  case (Cons p ps)
  obtain r w1 where p: "process_manifest default_config p (res, w) = (r, w1)"
    by (cases "process_manifest default_config p (res, w)") auto
  show ?case
  proof (cases r)
    case (Inl e)
    then show ?thesis using Cons.prems p by simp
  next
    case (Inr res1)
    then have "Framework res1 = Framework res"
      using process_manifest_default_Framework [of p res w res1] p by simp
    moreover have "Framework res' = Framework res1"
      using Cons.IH [of res1 w1] Cons.prems p Inr by simp
    ultimately show ?thesis by simp
  qed
qed

text \<open>
  Claim C7. Loading the configuration returns a configuration and never an exception. When
  the path is not a file, the result is \<^verbatim>\<open>{'Framework': []}\<close> and the one thing logged is a
  warning. When the file does not parse, the result is \<^verbatim>\<open>{'Framework': []}\<close> again and the one
  thing logged is the exception, at level error. In both cases the run goes on to the scan
  with that configuration, its outcome is the outcome of the scan, and a report that is
  rendered has nothing in \<^verbatim>\<open>Framework\<close>.
\<close>

theorem C7_config_fallback:
  "(config_file w = None \<longrightarrow>
      load_config w =
        (JDict [(''Framework'', JList [])],
         w\<lparr>logged := logged w @ [(WARNING, Config_file_not_found)]\<rparr>)) \<and>
   (config_file w = Some (Unparseable t) \<longrightarrow>
      load_config w =
        (JDict [(''Framework'', JList [])],
         w\<lparr>logged := logged w @ [(ERROR, Invalid_config_file)]\<rparr>)) \<and>
   (config_file w = None \<or> config_file w = Some (Unparseable t) \<longrightarrow>
      fst (main w) =
        (case fst (scan_loop (JDict [(''Framework'', JList [])]) (manifests w)
                     (\<lparr>Framework = [], Content = [], Regular = []\<rparr>, w)) of
           Inl e \<Rightarrow> Raised e
         | Inr res \<Rightarrow> Completed res) \<and>
      (\<forall>res. fst (main w) = Completed res \<longrightarrow> Framework res = []))"
proof (intro conjI impI allI)
  assume "config_file w = None"
  then show "load_config w =
        (JDict [(''Framework'', JList [])],
         w\<lparr>logged := logged w @ [(WARNING, Config_file_not_found)]\<rparr>)"
    by (simp add: load_config_def default_config_def logger_def)
next
  assume "config_file w = Some (Unparseable t)"
  then show "load_config w =
        (JDict [(''Framework'', JList [])],
         w\<lparr>logged := logged w @ [(ERROR, Invalid_config_file)]\<rparr>)"
    by (simp add: load_config_def default_config_def logger_def)
next
  assume a: "config_file w = None \<or> config_file w = Some (Unparseable t)"
  then have c: "fst (load_config w) = JDict [(''Framework'', JList [])]"
    by (auto simp: fst_load_config default_config_def)
  show m: "fst (main w) =
        (case fst (scan_loop (JDict [(''Framework'', JList [])]) (manifests w)
                     (\<lparr>Framework = [], Content = [], Regular = []\<rparr>, w)) of
           Inl e \<Rightarrow> Raised e
         | Inr res \<Rightarrow> Completed res)"
    by (simp add: fst_main c)
  fix res assume "fst (main w) = Completed res"
  then have "fst (scan_loop default_config (manifests w)
                     (\<lparr>Framework = [], Content = [], Regular = []\<rparr>, w)) = Inr res"
    unfolding m default_config_def by (simp split: sum.splits)
  from scan_loop_default_Framework [OF this] show "Framework res = []"
    by simp
qed

text \<open>
  Claim C7 at an installation without a configuration file and at one whose configuration
  file holds only an opening brace: in both, \<^verbatim>\<open>Content Patcher\<close> lands in \<^verbatim>\<open>Regular\<close>.
\<close>

theorem C7_config_fallback_witness:
  "load_config (installation None []) =
     (JDict [(''Framework'', JList [])],
      (installation None [])\<lparr>logged := [(WARNING, Config_file_not_found)]\<rparr>) \<and>
   load_config (installation (Some (Unparseable ''{'')) []) =
     (JDict [(''Framework'', JList [])],
      (installation (Some (Unparseable ''{'')) [])\<lparr>logged := [(ERROR, Invalid_config_file)]\<rparr>) \<and>
   fst (main (installation None [(''ContentPatcher'', Parsed (JDict content_patcher))])) =
     Completed
       \<lparr>Framework = [], Content = [],
        Regular = [\<lparr>name = JStr ''Content Patcher'', version = JStr ''1.30.0'',
                    description = JStr ''???'',
                    url = ''https://github.com/pathoschild/stardewmods/releases''\<rparr>]\<rparr> \<and>
   fst (main (installation (Some (Unparseable ''{''))
                [(''ContentPatcher'', Parsed (JDict content_patcher))])) =
     Completed
       \<lparr>Framework = [], Content = [],
        Regular = [\<lparr>name = JStr ''Content Patcher'', version = JStr ''1.30.0'',
                    description = JStr ''???'',
                    url = ''https://github.com/pathoschild/stardewmods/releases''\<rparr>]\<rparr>"
proof -
  let ?ms = "[(''ContentPatcher'', Parsed (JDict content_patcher))]"
  let ?r = "\<lparr>Framework = [], Content = [],
        Regular = [\<lparr>name = JStr ''Content Patcher'', version = JStr ''1.30.0'',
                    description = JStr ''???'',
                    url = ''https://github.com/pathoschild/stardewmods/releases''\<rparr>]\<rparr>"
  have n: "config_file (installation None ms) = None" for ms
    by (simp add: installation_def)
  have u: "config_file (installation (Some (Unparseable ''{'')) ms) = Some (Unparseable ''{'')"
    for ms
    by (simp add: installation_def)
  have e1: "fst (scan_loop (JDict [(''Framework'', JList [])]) (manifests (installation None ?ms))
                     (\<lparr>Framework = [], Content = [], Regular = []\<rparr>, installation None ?ms)) =
      Inr ?r"
    by code_simp
  have e2: "fst (scan_loop (JDict [(''Framework'', JList [])])
                     (manifests (installation (Some (Unparseable ''{'')) ?ms))
                     (\<lparr>Framework = [], Content = [], Regular = []\<rparr>,
                      installation (Some (Unparseable ''{'')) ?ms)) =
      Inr ?r"
    by code_simp
  have "load_config (installation None []) =
     (JDict [(''Framework'', JList [])],
      (installation None [])\<lparr>logged := logged (installation None []) @
        [(WARNING, Config_file_not_found)]\<rparr>)"
    using C7_config_fallback [of "installation None []" "''{''"] by (simp add: n)
  moreover have "load_config (installation (Some (Unparseable ''{'')) []) =
     (JDict [(''Framework'', JList [])],
      (installation (Some (Unparseable ''{'')) [])
      \<lparr>logged := logged (installation (Some (Unparseable ''{'')) []) @
        [(ERROR, Invalid_config_file)]\<rparr>)"
    using C7_config_fallback [of "installation (Some (Unparseable ''{'')) []" "''{''"]
    by (simp add: u)
  moreover have "fst (main (installation None ?ms)) = Completed ?r"
    using C7_config_fallback [of "installation None ?ms" "''{''"]
    by (simp add: n e1)
  moreover have "fst (main (installation (Some (Unparseable ''{'')) ?ms)) = Completed ?r"
    using C7_config_fallback [of "installation (Some (Unparseable ''{'')) ?ms" "''{''"]
    by (simp add: u e2)
  ultimately show ?thesis
    by (simp add: installation_def)
qed

section \<open>The report as a whole\<close>

lemma classify_Inr_bucket:
  "classify config manifest m res = Inr res' \<Longrightarrow>
   \<exists>b. bucket_of config manifest = Some b \<and> res' = add_placement (Some (b, m)) res"
  by (auto simp: classify_def bucket_of_def split: sum.splits bool.splits)

lemma process_manifest_step:
  assumes "process_manifest config p (res, w) = (Inr res', w')"
  shows "res' = add_placement (placement config p) res"
    and "passes p \<noteq> None \<Longrightarrow> placement config p \<noteq> None"
proof -
  have r: "fst (process_manifest config p (res, w)) = Inr res'"
    by (simp add: assms)
  show "res' = add_placement (placement config p) res"
  proof (cases "passes p")
    case None
    then show ?thesis
      using r by (simp add: fst_process_manifest placement_def)
  next
    case (Some manifest)
    from r obtain m mod_link entries where
      m: "new_mod manifest = Inr m" "mod_link_of manifest = Inr (mod_link, entries)"
        "classify config manifest (m\<lparr>url := mod_link\<rparr>) res = Inr res'"
      by (auto simp: fst_process_manifest Some split: sum.splits prod.splits)
    from classify_Inr_bucket [OF m(3)] obtain b where
      b: "bucket_of config manifest = Some b"
        "res' = add_placement (Some (b, m\<lparr>url := mod_link\<rparr>)) res"
      by blast
    show ?thesis
      by (simp add: placement_def Some record_of_def m(1,2) b)
  qed
  show "placement config p \<noteq> None" if "passes p \<noteq> None"
  proof -
    from that obtain manifest where Some: "passes p = Some manifest" by auto
    from r obtain m mod_link entries where
      m: "new_mod manifest = Inr m" "mod_link_of manifest = Inr (mod_link, entries)"
        "classify config manifest (m\<lparr>url := mod_link\<rparr>) res = Inr res'"
      by (auto simp: fst_process_manifest Some split: sum.splits prod.splits)
    from classify_Inr_bucket [OF m(3)] obtain b where
      b: "bucket_of config manifest = Some b"
      by blast
    show ?thesis
      by (simp add: placement_def Some record_of_def m(1,2) b)
  qed
qed

lemma placed_Nil [simp]: "placed b config [] = []"
  by (simp add: placed_def List.map_filter_simps)

lemma placed_Cons:
  "placed b config (p # ps) =
     (case placement config p of
        None \<Rightarrow> placed b config ps
      | Some (b', m) \<Rightarrow> if b' = b then m # placed b config ps else placed b config ps)"
  by (simp add: placed_def List.map_filter_simps split: option.splits prod.splits)

lemma add_placement_fields:
  "Framework (add_placement pl res) =
     Framework res @ (case pl of Some (To_Framework, m) \<Rightarrow> [m] | _ \<Rightarrow> [])"
  "Content (add_placement pl res) =
     Content res @ (case pl of Some (To_Content, m) \<Rightarrow> [m] | _ \<Rightarrow> [])"
  "Regular (add_placement pl res) =
     Regular res @ (case pl of Some (To_Regular, m) \<Rightarrow> [m] | _ \<Rightarrow> [])"
  by (cases pl; cases "fst (the pl)"; auto split: bucket.splits)+

lemma scan_loop_placed:
  assumes "scan_loop config ds (res0, w) = (Inr res, w')"
  shows "Framework res = Framework res0 @ placed To_Framework config ds \<and>
         Content res = Content res0 @ placed To_Content config ds \<and>
         Regular res = Regular res0 @ placed To_Regular config ds \<and>
         (\<forall>p \<in> set ds. passes p \<noteq> None \<longrightarrow> placement config p \<noteq> None)"
  using assms
proof (induction ds arbitrary: res0 w)
  case Nil
  then show ?case by simp
next
  case (Cons p ps)
  from Cons.prems obtain res1 w1 where
    step: "process_manifest config p (res0, w) = (Inr res1, w1)"
    and rest: "scan_loop config ps (res1, w1) = (Inr res, w')"
    by (auto split: prod.splits sum.splits)
  note s = process_manifest_step [OF step]
  note ih = Cons.IH [OF rest]
  show ?case
    using ih s(2)
    by (auto simp: s(1) add_placement_fields placed_Cons split: option.splits bucket.splits)
qed

lemma length_placed:
  "length (placed To_Framework config ds) + length (placed To_Content config ds) +
   length (placed To_Regular config ds) = length (filter (\<lambda>p. placement config p \<noteq> None) ds)"
proof (induction ds)
  case Nil
  show ?case by simp
next
  case (Cons p ps)
  show ?case
  proof (cases "placement config p")
    case None
    then show ?thesis using Cons.IH by (simp add: placed_Cons)
  next
    case (Some bm)
    then obtain b m where "placement config p = Some (b, m)"
      by (cases bm) simp
    then show ?thesis using Cons.IH by (cases b) (simp_all add: placed_Cons)
  qed
qed

text \<open>
  Claim C8. Take a run that renders a report \<open>res\<close>. Going through the descriptors in the order
  the glob gave them: a descriptor that did not parse (or parsed to a false value, such as
  the empty object) has no placement; every other descriptor has exactly one placement, a
  record and the one list it goes to; and each of the three lists of \<open>res\<close> holds, in that
  order, exactly the records placed in it. So the three lists together hold one record for
  each descriptor that parsed to a true value, and none for the others.
\<close>

theorem C8_report_invariant:
  assumes "fst (main w) = Completed res"
    and "config = fst (load_config w)"
  shows "Framework res = placed To_Framework config (manifests w) \<and>
         Content res = placed To_Content config (manifests w) \<and>
         Regular res = placed To_Regular config (manifests w) \<and>
         (\<forall>p \<in> set (manifests w).
            (passes p = None \<longrightarrow> placement config p = None) \<and>
            (passes p \<noteq> None \<longrightarrow> placement config p \<noteq> None)) \<and>
         length (Framework res) + length (Content res) + length (Regular res) =
           length (filter (\<lambda>p. passes p \<noteq> None) (manifests w))"
proof -
  from main_Completed [OF assms(1)] obtain w' where
    "scan_loop (fst (load_config w)) (manifests w)
       (\<lparr>Framework = [], Content = [], Regular = []\<rparr>, snd (load_config w)) = (Inr res, w')"
    by blast
  then have s: "scan_loop config (manifests w)
       (\<lparr>Framework = [], Content = [], Regular = []\<rparr>, snd (load_config w)) = (Inr res, w')"
    by (simp only: assms(2))
  have f: "Framework res = placed To_Framework config (manifests w)"
    and c: "Content res = placed To_Content config (manifests w)"
    and r: "Regular res = placed To_Regular config (manifests w)"
    and a: "\<forall>p \<in> set (manifests w). passes p \<noteq> None \<longrightarrow> placement config p \<noteq> None"
    using scan_loop_placed [OF s] by simp_all
  have n: "placement config p = None" if "passes p = None" for p
    using that by (simp add: placement_def)
  have e: "(placement config p \<noteq> None) = (passes p \<noteq> None)"
    if "p \<in> set (manifests w)" for p
  proof (cases "passes p")
    case None
    then show ?thesis using n [OF None] by simp
  next
    case (Some manifest)
    then show ?thesis using a that by simp
  qed
  have "filter (\<lambda>p. placement config p \<noteq> None) (manifests w) =
        filter (\<lambda>p. passes p \<noteq> None) (manifests w)"
    by (rule filter_cong [OF refl]) (rule e)
  then have len: "length (Framework res) + length (Content res) + length (Regular res) =
      length (filter (\<lambda>p. passes p \<noteq> None) (manifests w))"
    by (simp only: f c r length_placed)
  have b: "\<forall>p \<in> set (manifests w).
            (passes p = None \<longrightarrow> placement config p = None) \<and>
            (passes p \<noteq> None \<longrightarrow> placement config p \<noteq> None)"
  proof (intro ballI conjI impI)
    fix p assume "p \<in> set (manifests w)" "passes p = None"
    then show "placement config p = None" by (simp add: n)
  next
    fix p assume "p \<in> set (manifests w)" "passes p \<noteq> None"
    then show "placement config p \<noteq> None" using a by simp
  qed
  from f c r b len show ?thesis
    by (intro conjI)
qed

text \<open>
  Claim C8 at an installation whose override list names \<^verbatim>\<open>Content Patcher\<close> and whose five
  manifests are one that does not parse, a content pack, the empty object and two mods:
  three records, one in each list, and no placement for the first and the third manifest.
\<close>

theorem C8_report_invariant_witness:
  "fst (main (installation (Some (Parsed framework_config)) mixed_mods)) =
     Completed
       \<lparr>Framework = [\<lparr>name = JStr ''Content Patcher'', version = JStr ''1.30.0'',
                      description = JStr ''???'',
                      url = ''https://github.com/pathoschild/stardewmods/releases''\<rparr>],
        Content = [\<lparr>name = JStr ''Seasonal Outfits'', version = JStr ''2.0'',
                    description = JStr ''???'', url = ''moddrop:123''\<rparr>],
        Regular = [\<lparr>name = JStr ''Automate'', version = JStr ''1.28.0'',
                    description = JStr ''Lets machines pull from chests'',
                    url = ''https://www.nexusmods.com/stardewvalley/mods/1063''\<rparr>]\<rparr> \<and>
   placed To_Framework framework_config mixed_mods =
     [\<lparr>name = JStr ''Content Patcher'', version = JStr ''1.30.0'', description = JStr ''???'',
       url = ''https://github.com/pathoschild/stardewmods/releases''\<rparr>] \<and>
   placed To_Content framework_config mixed_mods =
     [\<lparr>name = JStr ''Seasonal Outfits'', version = JStr ''2.0'', description = JStr ''???'',
       url = ''moddrop:123''\<rparr>] \<and>
   placed To_Regular framework_config mixed_mods =
     [\<lparr>name = JStr ''Automate'', version = JStr ''1.28.0'',
       description = JStr ''Lets machines pull from chests'',
       url = ''https://www.nexusmods.com/stardewvalley/mods/1063''\<rparr>] \<and>
   placement framework_config (''Broken'', Unparseable ''{ Name: '') = None \<and>
   placement framework_config (''Empty'', Parsed (JDict [])) = None \<and>
   placement framework_config (''Automate'', Parsed (JDict automate)) \<noteq> None \<and>
   length (filter (\<lambda>p. passes p \<noteq> None) mixed_mods) = 3"
proof -
  let ?w = "installation (Some (Parsed framework_config)) mixed_mods"
  let ?res = "\<lparr>Framework = [\<lparr>name = JStr ''Content Patcher'', version = JStr ''1.30.0'',
                      description = JStr ''???'',
                      url = ''https://github.com/pathoschild/stardewmods/releases''\<rparr>],
        Content = [\<lparr>name = JStr ''Seasonal Outfits'', version = JStr ''2.0'',
                    description = JStr ''???'', url = ''moddrop:123''\<rparr>],
        Regular = [\<lparr>name = JStr ''Automate'', version = JStr ''1.28.0'',
                    description = JStr ''Lets machines pull from chests'',
                    url = ''https://www.nexusmods.com/stardewvalley/mods/1063''\<rparr>]\<rparr>"
  have h: "fst (main ?w) = Completed ?res"
    by code_simp
  have cfg: "framework_config = fst (load_config ?w)"
    by (simp add: load_config_def installation_def)
  have ms: "manifests ?w = mixed_mods"
    by (simp add: installation_def)
  note t = C8_report_invariant [OF h cfg, unfolded ms]
  have p1: "passes (''Broken'', Unparseable ''{ Name: '') = None"
    and p2: "passes (''Empty'', Parsed (JDict [])) = None"
    and p3: "passes (''Automate'', Parsed (JDict automate)) \<noteq> None"
    by (simp_all add: passes_def automate_def)
  have i1: "(''Broken'', Unparseable ''{ Name: '') \<in> set mixed_mods"
    and i2: "(''Empty'', Parsed (JDict [])) \<in> set mixed_mods"
    and i3: "(''Automate'', Parsed (JDict automate)) \<in> set mixed_mods"
    by (simp_all add: mixed_mods_def)
  from t have b: "\<forall>p \<in> set mixed_mods.
            (passes p = None \<longrightarrow> placement framework_config p = None) \<and>
            (passes p \<noteq> None \<longrightarrow> placement framework_config p \<noteq> None)"
    by (elim conjE)
  have n1: "placement framework_config (''Broken'', Unparseable ''{ Name: '') = None"
    using bspec [OF b i1] p1 by simp
  have n2: "placement framework_config (''Empty'', Parsed (JDict [])) = None"
    using bspec [OF b i2] p2 by simp
  have n3: "placement framework_config (''Automate'', Parsed (JDict automate)) \<noteq> None"
    using bspec [OF b i3] p3 by simp
  have f: "placed To_Framework framework_config mixed_mods = Framework ?res"
    using t [THEN conjunct1] by simp
  have c: "placed To_Content framework_config mixed_mods = Content ?res"
    using t [THEN conjunct2, THEN conjunct1] by simp
  have r: "placed To_Regular framework_config mixed_mods = Regular ?res"
    using t [THEN conjunct2, THEN conjunct2, THEN conjunct1] by simp
  have len: "length (filter (\<lambda>p. passes p \<noteq> None) mixed_mods) =
      length (Framework ?res) + length (Content ?res) + length (Regular ?res)"
    using t [THEN conjunct2, THEN conjunct2, THEN conjunct2, THEN conjunct2] by simp
  show ?thesis
    using h n1 n2 n3 len by (simp add: f c r)
qed

section \<open>Two runs over the same files\<close>

text \<open>
  Claim C9. What a run reads of the directory tree and the configuration is the parsed
  configuration file and the manifests in the order the glob yields them. Two runs that
  agree on these end alike, with the same report (the same records in the same order in the
  three lists) or the same exception, whatever else differs between them: the entries of the
  game directory, what is already in the log, the dump files and the report rendered before.
  In particular a run leaves what it reads as it was, so a second run over the files as the
  first run left them ends as the first did. The order the glob yields is taken as part of
  the tree.
\<close>

theorem C9_scan_deterministic:
  assumes "config_file w1 = config_file w2" and "manifests w1 = manifests w2"
  shows "fst (main w1) = fst (main w2) \<and> fst (main (snd (main w1))) = fst (main w1)"
proof -
  have *: "fst (main a) = fst (main b)" if "config_file a = config_file b" "manifests a = manifests b"
    for a b
    using that fst_scan_loop_world [of _ _ _ a b] by (simp add: fst_main fst_load_config)
  show ?thesis
    using * [OF assms] * [OF main_frame(2) main_frame(1), of w1] by simp
qed

text \<open>
  Claim C9 at two states of one installation: a fresh one, and one where the marker files
  are gone and a log, a dump file and a rendered report of another run are present.
\<close>

theorem C9_scan_deterministic_witness:
  "fst (main (installation (Some (Parsed framework_config)) mixed_mods)) =
   fst (main ((installation (Some (Parsed framework_config)) mixed_mods)
              \<lparr>root_files := [''Mods''],
               logged := [(ERROR, Invalid_mod_manifest ''Old/manifest.json'' ''Old_manifest.json'')],
               written := [(''Old_manifest.json'', ''{'')],
               rendered := Some \<lparr>Framework = [], Content = [], Regular = []\<rparr>\<rparr>)) \<and>
   fst (main (snd (main (installation (Some (Parsed framework_config)) mixed_mods)))) =
   fst (main (installation (Some (Parsed framework_config)) mixed_mods))"
  using C9_scan_deterministic [of "installation (Some (Parsed framework_config)) mixed_mods"
      "(installation (Some (Parsed framework_config)) mixed_mods)
              \<lparr>root_files := [''Mods''],
               logged := [(ERROR, Invalid_mod_manifest ''Old/manifest.json'' ''Old_manifest.json'')],
               written := [(''Old_manifest.json'', ''{'')],
               rendered := Some \<lparr>Framework = [], Content = [], Regular = []\<rparr>\<rparr>"]
  by simp

section \<open>A configuration without the key \<^verbatim>\<open>Framework\<close>\<close>

lemma process_manifest_no_Framework_key:
  assumes "map_of cfg ''Framework'' = None"
    and "map_of kvs ''Name'' = Some n" and "map_of kvs ''Version'' = Some v"
    and "map_of kvs ''ContentPackFor'' = None"
    and "mod_link_of (JDict kvs) = Inr (u, entries)"
  shows "fst (process_manifest (JDict cfg) (d, Parsed (JDict kvs)) (res, w)) = Inl KeyError"
proof -
  have "kvs \<noteq> []" using assms(2) by auto
  then have "passes (d, Parsed (JDict kvs)) = Some (JDict kvs)"
    by (simp add: passes_def)
  moreover have "classify (JDict cfg) (JDict kvs) m res = Inl KeyError" for m
    using assms(1,2,4) by (simp add: classify_def)
  ultimately show ?thesis
    using new_mod_Inr [OF assms(2,3)] assms(5) by (simp add: fst_process_manifest)
qed

text \<open>
  Claim C10. Let the configuration file parse to an object without the key \<^verbatim>\<open>Framework\<close>. Take a
  manifest with \<^verbatim>\<open>Name\<close> and \<^verbatim>\<open>Version\<close> and without \<^verbatim>\<open>ContentPackFor\<close>, whose link is resolved without
  an uncaught exception, and let the descriptors before it be processed without one. Then
  \<^verbatim>\<open>config['Framework']\<close> at line 131 raises a \<^verbatim>\<open>KeyError\<close> that nothing catches, and the run ends
  with it instead of rendering a report.
\<close>

theorem C10_missing_Framework_key_aborts:
  assumes "config_file w = Some (Parsed (JDict cfg))"
    and "map_of cfg ''Framework'' = None"
    and "manifests w = earlier @ (d, Parsed (JDict kvs)) # rest"
    and "fst (scan_loop (JDict cfg) earlier (\<lparr>Framework = [], Content = [], Regular = []\<rparr>, w)) =
           Inr res"
    and "map_of kvs ''Name'' = Some n" and "map_of kvs ''Version'' = Some v"
    and "map_of kvs ''ContentPackFor'' = None"
    and "mod_link_of (JDict kvs) = Inr (u, entries)"
  shows "fst (main w) = Raised KeyError"
proof -
  let ?r0 = "\<lparr>Framework = [], Content = [], Regular = []\<rparr>"
  have c: "fst (load_config w) = JDict cfg"
    by (simp add: fst_load_config assms(1))
  obtain w1 where e: "scan_loop (JDict cfg) earlier (?r0, w) = (Inr res, w1)"
    using assms(4) by (cases "scan_loop (JDict cfg) earlier (?r0, w)") auto
  obtain r w2 where p: "process_manifest (JDict cfg) (d, Parsed (JDict kvs)) (res, w1) = (r, w2)"
    by (cases "process_manifest (JDict cfg) (d, Parsed (JDict kvs)) (res, w1)") auto
  have "r = Inl KeyError"
    using process_manifest_no_Framework_key [OF assms(2) assms(5-8), of d res w1] p by simp
  then have "fst (scan_loop (JDict cfg) (manifests w) (?r0, w)) = Inl KeyError"
    by (simp add: assms(3) scan_loop_append e p)
  then show ?thesis
    by (simp add: fst_main c)
qed

text \<open>
  Claim C10 at an installation whose configuration file holds the empty object: the content
  pack is processed, and the run ends at \<^verbatim>\<open>Automate\<close>, the first manifest without
  \<^verbatim>\<open>ContentPackFor\<close>.
\<close>

theorem C10_missing_Framework_key_aborts_witness:
  "fst (main (installation (Some (Parsed (JDict [])))
                [(''SeasonalOutfits'', Parsed (JDict seasonal_outfits)),
                 (''Automate'', Parsed (JDict automate)),
                 (''ContentPatcher'', Parsed (JDict content_patcher))])) =
     Raised KeyError"
proof -
  let ?w = "installation (Some (Parsed (JDict [])))
                [(''SeasonalOutfits'', Parsed (JDict seasonal_outfits)),
                 (''Automate'', Parsed (JDict automate)),
                 (''ContentPatcher'', Parsed (JDict content_patcher))]"
  have h1: "config_file ?w = Some (Parsed (JDict []))"
    by (simp add: installation_def)
  have h2: "map_of ([] :: (string \<times> json) list) ''Framework'' = None"
    by simp
  have h3: "manifests ?w =
      [(''SeasonalOutfits'', Parsed (JDict seasonal_outfits))] @
      (''Automate'', Parsed (JDict automate)) #
      [(''ContentPatcher'', Parsed (JDict content_patcher))]"
    by (simp add: installation_def)
  have h4: "fst (scan_loop (JDict []) [(''SeasonalOutfits'', Parsed (JDict seasonal_outfits))]
                  (\<lparr>Framework = [], Content = [], Regular = []\<rparr>, ?w)) =
      Inr \<lparr>Framework = [],
           Content = [\<lparr>name = JStr ''Seasonal Outfits'', version = JStr ''2.0'',
                       description = JStr ''???'', url = ''moddrop:123''\<rparr>],
           Regular = []\<rparr>"
    by code_simp
  have h5: "map_of automate ''Name'' = Some (JStr ''Automate'')"
    and h6: "map_of automate ''Version'' = Some (JStr ''1.28.0'')"
    and h7: "map_of automate ''ContentPackFor'' = None"
    by (simp_all add: automate_def)
  have h8: "mod_link_of (JDict automate) =
      Inr (''https://www.nexusmods.com/stardewvalley/mods/1063'', [])"
    by code_simp
  show ?thesis
    by (rule C10_missing_Framework_key_aborts [OF h1 h2 h3 h4 h5 h6 h7 h8])
qed

end
